theory Spec2Isabelle
  imports Main "HOL-Library.Word" "HOL-Library.Sublist"
begin

unbundle bit_operations_syntax

section \<open>Identifiers and their hexadecimal wire encoding\<close>

text \<open>
  \<^verbatim>\<open>primitive.ObjectID\<close> is the Go array type \<^verbatim>\<open>[12]byte\<close>; it is modelled as a list
  of bytes, and every identifier the program builds has twelve of them. The program calls
  two library functions on it, \<^verbatim>\<open>ObjectIDFromHex\<close> and \<^verbatim>\<open>Hex\<close>, which in turn are Go's
  \<^verbatim>\<open>encoding/hex\<close> \<^verbatim>\<open>Decode\<close> and \<^verbatim>\<open>Encode\<close>. They are written out here as the library
  defines them, since the program's treatment of identifiers runs through them.
\<close>

type_synonym byte = "8 word"
type_synonym ObjectID = "byte list"
type_synonym go_int = "64 word"

datatype error =
    InvalidByteError char
  | ErrLength
  | ErrInvalidHex
  | ErrNoDocuments
  | DuplicateKeyError
  | NamespaceExists
  | InvalidNamespace
  | ServerSelectionError

definition NilObjectID :: ObjectID where
  "NilObjectID = replicate 12 0"

definition IsZero :: "ObjectID \<Rightarrow> bool" where
  "IsZero oid = (oid = NilObjectID)"

definition hextable :: string where
  "hextable = ''0123456789abcdef''"

definition fromHexChar :: "char \<Rightarrow> byte option" where
  "fromHexChar c =
     (let n = (of_char c :: nat) in
      if 48 \<le> n \<and> n \<le> 57 then Some (of_nat (n - 48))
      else if 97 \<le> n \<and> n \<le> 102 then Some (of_nat (n - 97 + 10))
      else if 65 \<le> n \<and> n \<le> 70 then Some (of_nat (n - 65 + 10))
      else None)"

fun Encode :: "byte list \<Rightarrow> string" where
  "Encode [] = []"
| "Encode (v # vs) =
     hextable ! unat (drop_bit 4 v) # hextable ! unat (v AND 0x0f) # Encode vs"

fun Decode :: "string \<Rightarrow> error + byte list" where
  "Decode [] = Inr []"
| "Decode [p] = (case fromHexChar p of None \<Rightarrow> Inl (InvalidByteError p) | Some a \<Rightarrow> Inl ErrLength)"
| "Decode (p # q # src) =
     (case fromHexChar p of
        None \<Rightarrow> Inl (InvalidByteError p)
      | Some a \<Rightarrow>
          (case fromHexChar q of
             None \<Rightarrow> Inl (InvalidByteError q)
           | Some b \<Rightarrow>
               (case Decode src of
                  Inl e \<Rightarrow> Inl e
                | Inr dst \<Rightarrow> Inr ((push_bit 4 a OR b) # dst))))"

definition ObjectIDFromHex :: "string \<Rightarrow> ObjectID \<times> error option" where
  "ObjectIDFromHex s =
     (if length s \<noteq> 24 then (NilObjectID, Some ErrInvalidHex)
      else (case Decode s of
              Inl err \<Rightarrow> (NilObjectID, Some err)
            | Inr oid \<Rightarrow> (oid, None)))"

definition Hex :: "ObjectID \<Rightarrow> string" where
  "Hex oid = Encode oid"

section \<open>The two record shapes\<close>

text \<open>
  \<^verbatim>\<open>BookStore\<close> is the persisted shape and \<^verbatim>\<open>Book\<close> the wire shape. Go's \<^verbatim>\<open>int\<close> is a
  64-bit machine integer. The fields are prefixed where the two structs share a name.
\<close>

record BookStore =
  ID :: ObjectID
  BookName :: string
  BookAuthor :: string
  BookISBN :: string
  BookPages :: go_int
  BookYear :: go_int

record Book =
  wID :: string
  Name :: string
  Author :: string
  ISBN :: string
  Pages :: go_int
  Year :: go_int

text \<open>The zero value of \<^verbatim>\<open>BookStore\<close>, which \<^verbatim>\<open>var bookStore BookStore\<close> declares.\<close>

definition zeroBookStore :: BookStore where
  "zeroBookStore =
     \<lparr>ID = NilObjectID, BookName = [], BookAuthor = [], BookISBN = [],
      BookPages = 0, BookYear = 0\<rparr>"

definition convertToBookstore :: "Book \<Rightarrow> BookStore" where
  "convertToBookstore book =
     (let bookStore = zeroBookStore;
          bookStore = (if wID book \<noteq> [] then bookStore\<lparr>ID := fst (ObjectIDFromHex (wID book))\<rparr>
                       else bookStore);
          bookStore = bookStore\<lparr>BookAuthor := Author book\<rparr>;
          bookStore = bookStore\<lparr>BookISBN := ISBN book\<rparr>;
          bookStore = bookStore\<lparr>BookName := Name book\<rparr>;
          bookStore = bookStore\<lparr>BookPages := Pages book\<rparr>;
          bookStore = bookStore\<lparr>BookYear := Year book\<rparr>
      in bookStore)"

text \<open>
  One element of the list \<^verbatim>\<open>getAllBooks\<close> builds: the map literal in the body of its
  loop. Its keys are the JSON names of the fields of \<^verbatim>\<open>Book\<close>, so it is the wire form
  of a persisted record.
\<close>

datatype bvalue =
    BNull
  | BString string
  | BInt go_int
  | BObjectID ObjectID
  | BDoc "(string \<times> bvalue) list"

type_synonym bsonM = "(string \<times> bvalue) list"

definition wireRow :: "BookStore \<Rightarrow> bsonM" where
  "wireRow res =
     [(''id'', BString (Hex (ID res))),
      (''name'', BString (BookName res)),
      (''author'', BString (BookAuthor res)),
      (''isbn'', BString (BookISBN res)),
      (''pages'', BInt (BookPages res)),
      (''year'', BInt (BookYear res))]"

section \<open>The collection\<close>

text \<open>
  The collection is the list of the documents it holds, in insertion order, each with the
  \<^verbatim>\<open>_id\<close> the store keeps for it. The driver writes a struct field under its lowercased
  name (\<^verbatim>\<open>_id\<close> for the tagged one), which is what a filter's keys are compared with.
  The server is taken to be reachable; the errors an operation returns are those its
  content decides: no document for \<^verbatim>\<open>FindOne\<close>, and the unique index on \<^verbatim>\<open>_id\<close> for
  \<^verbatim>\<open>InsertOne\<close>.
\<close>

type_synonym Collection = "BookStore list"

definition document :: "BookStore \<Rightarrow> bsonM" where
  "document d =
     [(''_id'', BObjectID (ID d)),
      (''bookname'', BString (BookName d)),
      (''bookauthor'', BString (BookAuthor d)),
      (''bookisbn'', BString (BookISBN d)),
      (''bookpages'', BInt (BookPages d)),
      (''bookyear'', BInt (BookYear d))]"

text \<open>
  An equality filter: every key of the filter has the filter's value in the document. A
  \<^verbatim>\<open>null\<close> in the filter also matches a missing field, which makes \<^verbatim>\<open>bson.D{{}}\<close> (one
  element with the empty key and no value) match every document.
\<close>

definition matches :: "bsonM \<Rightarrow> BookStore \<Rightarrow> bool" where
  "matches flt d =
     list_all (\<lambda>(k, v). case v of
                 BNull \<Rightarrow> map_of (document d) k = None \<or> map_of (document d) k = Some BNull
               | _ \<Rightarrow> map_of (document d) k = Some v) flt"

definition Find :: "Collection \<Rightarrow> bsonM \<Rightarrow> BookStore list" where
  "Find coll flt = filter (matches flt) coll"

fun FindOne :: "Collection \<Rightarrow> bsonM \<Rightarrow> error + BookStore" where
  "FindOne [] flt = Inl ErrNoDocuments"
| "FindOne (d # ds) flt = (if matches flt d then Inr d else FindOne ds flt)"

text \<open>
  \<^verbatim>\<open>InsertOne\<close>: the tag \<^verbatim>\<open>_id,omitempty\<close> leaves a zero identifier out of the document
  sent, and the driver then adds the identifier it generates, here the argument
  \<open>newID\<close>; a non-zero identifier is sent as it is. The store refuses an \<^verbatim>\<open>_id\<close> it
  already holds.
\<close>

definition InsertOne :: "ObjectID \<Rightarrow> Collection \<Rightarrow> BookStore \<Rightarrow> error + (Collection \<times> ObjectID)" where
  "InsertOne newID coll doc =
     (let insertedID = (if IsZero (ID doc) then newID else ID doc) in
      if insertedID \<in> set (map ID coll) then Inl DuplicateKeyError
      else Inr (coll @ [doc\<lparr>ID := insertedID\<rparr>], insertedID))"

text \<open>
  \<^verbatim>\<open>$set\<close> on the fields of a document. The collection holds documents of the shape of
  \<^verbatim>\<open>BookStore\<close> only, so a value of another type for a field is left out.
\<close>

fun setField :: "BookStore \<Rightarrow> string \<times> bvalue \<Rightarrow> BookStore" where
  "setField d (k, v) =
     (if k = ''bookname'' then (case v of BString s \<Rightarrow> d\<lparr>BookName := s\<rparr> | _ \<Rightarrow> d)
      else if k = ''bookauthor'' then (case v of BString s \<Rightarrow> d\<lparr>BookAuthor := s\<rparr> | _ \<Rightarrow> d)
      else if k = ''bookisbn'' then (case v of BString s \<Rightarrow> d\<lparr>BookISBN := s\<rparr> | _ \<Rightarrow> d)
      else if k = ''bookpages'' then (case v of BInt n \<Rightarrow> d\<lparr>BookPages := n\<rparr> | _ \<Rightarrow> d)
      else if k = ''bookyear'' then (case v of BInt n \<Rightarrow> d\<lparr>BookYear := n\<rparr> | _ \<Rightarrow> d)
      else d)"

definition applyUpdate :: "bsonM \<Rightarrow> BookStore \<Rightarrow> BookStore" where
  "applyUpdate update d =
     (case map_of update ''$set'' of
        Some (BDoc fs) \<Rightarrow> foldl setField d fs
      | _ \<Rightarrow> d)"

fun UpdateOne :: "Collection \<Rightarrow> bsonM \<Rightarrow> bsonM \<Rightarrow> Collection" where
  "UpdateOne [] flt update = []"
| "UpdateOne (d # ds) flt update =
     (if matches flt d then applyUpdate update d # ds else d # UpdateOne ds flt update)"

fun DeleteOne :: "Collection \<Rightarrow> bsonM \<Rightarrow> Collection" where
  "DeleteOne [] flt = []"
| "DeleteOne (d # ds) flt = (if matches flt d then ds else d # DeleteOne ds flt)"

section \<open>The data-access functions\<close>

definition getAllBooks :: "Collection \<Rightarrow> bsonM list" where
  "getAllBooks coll = map wireRow (Find coll [([], BNull)])"

definition checkIfDuplicateExists :: "Collection \<Rightarrow> BookStore \<Rightarrow> bool" where
  "checkIfDuplicateExists coll book =
     (let flt =
        [(''bookname'', BString (BookName book)),
         (''bookauthor'', BString (BookAuthor book)),
         (''bookisbn'', BString (BookISBN book)),
         (''bookpages'', BInt (BookPages book)),
         (''bookyear'', BInt (BookYear book))];
          res = FindOne coll flt
      in (case res of Inl err \<Rightarrow> False | Inr d \<Rightarrow> True))"

text \<open>
  \<^verbatim>\<open>saveBook\<close> returns a slice of maps; the nil slice it returns on an error is the
  empty list, which \<^verbatim>\<open>c.JSON\<close> writes as \<^verbatim>\<open>null\<close>.
\<close>

definition saveBook :: "ObjectID \<Rightarrow> Collection \<Rightarrow> BookStore \<Rightarrow> Collection \<times> bsonM list" where
  "saveBook newID coll newBook =
     (case InsertOne newID coll newBook of
        Inl err \<Rightarrow> (coll, [])
      | Inr (coll', insertedID) \<Rightarrow> (coll', [] @ [[(''ID'', BObjectID insertedID)]]))"

text \<open>
  \<^verbatim>\<open>updateBook\<close> and \<^verbatim>\<open>deleteBook\<close> drop the result and the error of the store call:
  both of their branches return with nothing further done.
\<close>

definition updateBook :: "Collection \<Rightarrow> BookStore \<Rightarrow> Collection" where
  "updateBook coll updatedBook =
     (let flt = [(''_id'', BObjectID (ID updatedBook))];
          update = [(''$set'', BDoc
            [(''bookname'', BString (BookName updatedBook)),
             (''bookauthor'', BString (BookAuthor updatedBook)),
             (''bookisbn'', BString (BookISBN updatedBook)),
             (''bookpages'', BInt (BookPages updatedBook)),
             (''bookyear'', BInt (BookYear updatedBook))])]
      in UpdateOne coll flt update)"

definition deleteBook :: "Collection \<Rightarrow> ObjectID \<Rightarrow> Collection" where
  "deleteBook coll oid = (let flt = [(''_id'', BObjectID oid)] in DeleteOne coll flt)"

section \<open>The handlers of the REST endpoints\<close>

text \<open>
  A handler takes the collection and the bound request value, and returns the collection
  after it together with the status and the body it passes to \<^verbatim>\<open>c.JSON\<close>.
\<close>

datatype body = JString string | JRows "bsonM list"

type_synonym response = "nat \<times> body"

definition GET_api_books :: "Collection \<Rightarrow> response" where
  "GET_api_books coll = (200, JRows (getAllBooks coll))"

definition POST_api_books :: "ObjectID \<Rightarrow> Collection \<Rightarrow> Book \<Rightarrow> Collection \<times> response" where
  "POST_api_books newID coll book =
     (let toPost = convertToBookstore book in
      if checkIfDuplicateExists coll toPost then (coll, (304, JString ''Duplicate not allowed''))
      else (let (coll', res) = saveBook newID coll toPost in (coll', (200, JRows res))))"

definition PUT_api_books :: "Collection \<Rightarrow> Book \<Rightarrow> Collection \<times> response" where
  "PUT_api_books coll book =
     (let toUpdate = convertToBookstore book in
      if checkIfDuplicateExists coll toUpdate then (coll, (201, JString ''Duplicate not allowed''))
      else (updateBook coll toUpdate, (200, JString ''Updated the book'')))"

definition DELETE_api_books :: "Collection \<Rightarrow> string \<Rightarrow> Collection \<times> response" where
  "DELETE_api_books coll idParam =
     (let objectId = fst (ObjectIDFromHex idParam) in
      (deleteBook coll objectId, (200, JString ''Succesfully deleted entry'')))"

section \<open>Preparing the database\<close>

text \<open>
  The database handle: whether the server answers, the names of its collections, and the
  commands it has received. The server refuses to create a collection whose name it
  already has, and one whose name is empty, holds a dollar sign or a null character, or
  starts with \<^verbatim>\<open>system.\<close>; it creates any other. \<^verbatim>\<open>log.Fatal\<close> ends the process, which
  is the result \<open>Fatal\<close>; otherwise \<^verbatim>\<open>prepareDatabase\<close> returns a collection handle (nil
  is \<open>None\<close>) and an error.
\<close>

record Database =
  reachable :: bool
  collections :: "string list"
  commands :: "(string \<times> string) list"

definition validCollectionName :: "string \<Rightarrow> bool" where
  "validCollectionName name =
     (name \<noteq> [] \<and> CHR ''$'' \<notin> set name \<and> CHR 0x00 \<notin> set name
      \<and> \<not> prefix ''system.'' name)"

definition ListCollectionNames :: "Database \<Rightarrow> error + string list" where
  "ListCollectionNames db =
     (if reachable db then Inr (collections db) else Inl ServerSelectionError)"

definition RunCommand :: "Database \<Rightarrow> string \<times> string \<Rightarrow> Database \<times> error option" where
  "RunCommand db cmd =
     (if \<not> reachable db then (db, Some ServerSelectionError)
      else if snd cmd \<in> set (collections db)
        then (db\<lparr>commands := commands db @ [cmd]\<rparr>, Some NamespaceExists)
      else if \<not> validCollectionName (snd cmd)
        then (db\<lparr>commands := commands db @ [cmd]\<rparr>, Some InvalidNamespace)
      else (db\<lparr>collections := collections db @ [snd cmd],
                commands := commands db @ [cmd]\<rparr>, None))"

datatype prepared = Returned "string option" "error option" | Fatal error

definition prepareDatabase :: "Database \<Rightarrow> string \<Rightarrow> Database \<times> prepared" where
  "prepareDatabase db collecName =
     (case ListCollectionNames db of
        Inl err \<Rightarrow> (db, Returned None (Some err))
      | Inr names \<Rightarrow>
          if collecName \<notin> set names then
            (let cmd = (''create'', collecName) in
             case RunCommand db cmd of
               (db', Some err) \<Rightarrow> (db', Fatal err)
             | (db', None) \<Rightarrow> (db', Returned (Some collecName) None))
          else (db, Returned (Some collecName) None))"

section \<open>Preparing the data\<close>

text \<open>
  The three records \<^verbatim>\<open>prepareData\<close> seeds the collection with. None of them sets the
  identifier, so each has the zero one. The author of the first is written byte by byte,
  as the source file holds it.
\<close>

definition startData :: "BookStore list" where
  "startData =
     [\<lparr>ID = NilObjectID, BookName = ''The Vortex'',
       BookAuthor = ''Jos'' @ [CHR 0xC3, CHR 0x83, CHR 0xC2, CHR 0xA9] @ '' Eustasio Rivera'',
       BookISBN = ''958-30-0804-4'', BookPages = 292, BookYear = 1924\<rparr>,
      \<lparr>ID = NilObjectID, BookName = ''Frankenstein'', BookAuthor = ''Mary Shelley'',
       BookISBN = ''978-3-649-64609-9'', BookPages = 280, BookYear = 1818\<rparr>,
      \<lparr>ID = NilObjectID, BookName = ''The Black Cat'', BookAuthor = ''Edgar Allan Poe'',
       BookISBN = ''978-3-99168-238-7'', BookPages = 280, BookYear = 1843\<rparr>]"

text \<open>
  A struct given as a filter is written as a document is: the zero identifier is left
  out, the other fields go under their lowercased names.
\<close>

definition marshal :: "BookStore \<Rightarrow> bsonM" where
  "marshal b =
     (if IsZero (ID b) then [] else [(''_id'', BObjectID (ID b))]) @
     [(''bookname'', BString (BookName b)),
      (''bookauthor'', BString (BookAuthor b)),
      (''bookisbn'', BString (BookISBN b)),
      (''bookpages'', BInt (BookPages b)),
      (''bookyear'', BInt (BookYear b))]"

text \<open>
  The loop of \<^verbatim>\<open>prepareData\<close> over \<^verbatim>\<open>startData\<close>. Its first statement calls \<^verbatim>\<open>Find\<close> on
  the collection handle, which reads the fields of the handle: on the nil handle that is
  a nil pointer dereference, and the process ends in a panic. More than one record found
  ends the process in \<^verbatim>\<open>log.Fatal\<close>, a failed insert in a panic. \<open>newID n\<close> is the
  identifier the driver generates when the record at position \<open>n\<close> is inserted, and
  \<open>docs\<close> are the documents the collection holds.
\<close>

datatype seeded = Seeded Collection | FatalMoreRecords | Panicked

fun prepareData_range ::
  "(nat \<Rightarrow> ObjectID) \<Rightarrow> string option \<Rightarrow> Collection \<Rightarrow> nat \<Rightarrow> BookStore list \<Rightarrow> seeded" where
  "prepareData_range newID coll docs n [] = Seeded docs"
| "prepareData_range newID coll docs n (book # rest) =
     (case coll of
        None \<Rightarrow> Panicked
      | Some c \<Rightarrow>
          (let results = Find docs (marshal book) in
           if length results > 1 then FatalMoreRecords
           else if length results = 0 then
             (case InsertOne (newID n) docs book of
                Inl err \<Rightarrow> Panicked
              | Inr (docs', insertedID) \<Rightarrow> prepareData_range newID coll docs' (Suc n) rest)
           else prepareData_range newID coll docs (Suc n) rest))"

definition prepareData :: "(nat \<Rightarrow> ObjectID) \<Rightarrow> string option \<Rightarrow> Collection \<Rightarrow> seeded" where
  "prepareData newID coll docs = prepareData_range newID coll docs 0 startData"

text \<open>
  The part of \<^verbatim>\<open>main\<close> from the call of \<^verbatim>\<open>prepareDatabase\<close> to the start of the server.
  The error \<^verbatim>\<open>prepareDatabase\<close> returns is not looked at: the handle goes to
  \<^verbatim>\<open>prepareData\<close> as it is, and the server is started when \<^verbatim>\<open>prepareData\<close> returns.
\<close>

datatype startup = Exit1 | Panic | Serving Database Collection

definition main_startup :: "(nat \<Rightarrow> ObjectID) \<Rightarrow> Database \<Rightarrow> Collection \<Rightarrow> startup" where
  "main_startup newID db docs =
     (case prepareDatabase db ''information'' of
        (db', Fatal err) \<Rightarrow> Exit1
      | (db', Returned coll err) \<Rightarrow>
          (case prepareData newID coll docs of
             Panicked \<Rightarrow> Panic
           | FatalMoreRecords \<Rightarrow> Exit1
           | Seeded docs' \<Rightarrow> Serving db' docs'))"

section \<open>The router\<close>

text \<open>
  The \<^verbatim>\<open>server\<close> block of the nginx configuration has two prefix locations, \<^verbatim>\<open>/\<close> and
  \<^verbatim>\<open>/api\<close>; the longest one that is a prefix of the request's URI (the normalised path,
  which starts with a slash) is taken. In
  \<^verbatim>\<open>location /api\<close> the four \<^verbatim>\<open>if\<close> directives are evaluated in order and each one whose
  condition holds sets the \<^verbatim>\<open>proxy_pass\<close>; when none does, the request is not passed to
  any upstream.
\<close>

datatype upstream = backend | get | post | put | delete

definition location_api :: "string \<Rightarrow> upstream option" where
  "location_api request_method =
     (let pass = None;
          pass = (if request_method = ''GET'' then Some get else pass);
          pass = (if request_method = ''POST'' then Some post else pass);
          pass = (if request_method = ''PUT'' then Some put else pass);
          pass = (if request_method = ''DELETE'' then Some delete else pass)
      in pass)"

definition server :: "string \<Rightarrow> string \<Rightarrow> upstream option" where
  "server request_method uri =
     (if prefix ''/api'' uri then location_api request_method
      else if prefix ''/'' uri then Some backend
      else None)"

section \<open>Predicates of the statements\<close>

text \<open>The five descriptive fields of two records agree.\<close>

definition sameFields :: "BookStore \<Rightarrow> BookStore \<Rightarrow> bool" where
  "sameFields a b =
     (BookName a = BookName b \<and> BookAuthor a = BookAuthor b \<and> BookISBN a = BookISBN b
      \<and> BookPages a = BookPages b \<and> BookYear a = BookYear b)"

text \<open>
  No stored document has the zero identifier: the driver never generates it, and a record
  that carries it is stored under a generated one.
\<close>

definition noZeroID :: "Collection \<Rightarrow> bool" where
  "noZeroID coll = list_all (\<lambda>d. \<not> IsZero (ID d)) coll"


section \<open>Example values\<close>

text \<open>
  A stored record, the identifier the driver generates next, and a wire record with the
  stored record's descriptive fields, given its identifier string and its page count.
\<close>

definition storedID :: ObjectID where
  "storedID = [1, 2, 3, 4, 5, 6, 7, 8, 9, 10, 11, 12]"

definition generatedID :: ObjectID where
  "generatedID = [101, 102, 103, 104, 105, 106, 107, 108, 109, 110, 111, 112]"

definition storedBook :: BookStore where
  "storedBook =
     \<lparr>ID = storedID, BookName = ''Dune'', BookAuthor = ''Herbert'',
      BookISBN = ''0-441-17271-7'', BookPages = 412, BookYear = 1965\<rparr>"

definition wireBook :: "string \<Rightarrow> go_int \<Rightarrow> Book" where
  "wireBook i p =
     \<lparr>wID = i, Name = ''Dune'', Author = ''Herbert'', ISBN = ''0-441-17271-7'',
      Pages = p, Year = 1965\<rparr>"

definition exampleDatabase :: "bool \<Rightarrow> string list \<Rightarrow> Database" where
  "exampleDatabase up names = \<lparr>reachable = up, collections = names, commands = []\<rparr>"

definition seedID :: "nat \<Rightarrow> ObjectID" where
  "seedID n = [201, 202, 203, 204, 205, 206, 207, 208, 209, 210, 211, of_nat n]"

section \<open>The hexadecimal encoding is inverted by the decoding\<close>












lemma ObjectIDFromHex_error: "snd (ObjectIDFromHex s) \<noteq> None \<Longrightarrow> fst (ObjectIDFromHex s) = NilObjectID"
  by (auto simp: ObjectIDFromHex_def split: sum.splits if_splits)

lemma NilObjectID_bytes: "NilObjectID = [0, 0, 0, 0, 0, 0, 0, 0, 0, 0, 0, 0]"
  by (simp add: NilObjectID_def numeral_eq_Suc)

subsection \<open>Lowercase strings are written back as they were read\<close>









section \<open>What the store operations do\<close>

lemma matches_id: "matches [(''_id'', BObjectID i)] d \<longleftrightarrow> ID d = i"
  by (simp add: matches_def document_def)

lemma matches_five:
  "matches [(''bookname'', BString (BookName b)),
            (''bookauthor'', BString (BookAuthor b)),
            (''bookisbn'', BString (BookISBN b)),
            (''bookpages'', BInt (BookPages b)),
            (''bookyear'', BInt (BookYear b))] d \<longleftrightarrow> sameFields d b"
  by (simp add: matches_def document_def sameFields_def)

lemma matches_any: "matches [([], BNull)] d"
  by (simp add: matches_def document_def)

lemma FindOne_isl: "isl (FindOne coll flt) \<longleftrightarrow> \<not> (\<exists>d\<in>set coll. matches flt d)"
  by (induction coll) auto

lemma checkIfDuplicateExists_FindOne:
  "checkIfDuplicateExists coll book \<longleftrightarrow>
     \<not> isl (FindOne coll
        [(''bookname'', BString (BookName book)),
         (''bookauthor'', BString (BookAuthor book)),
         (''bookisbn'', BString (BookISBN book)),
         (''bookpages'', BInt (BookPages book)),
         (''bookyear'', BInt (BookYear book))])"
  by (simp add: checkIfDuplicateExists_def split: sum.splits)

lemma checkIfDuplicateExists_iff:
  "checkIfDuplicateExists coll book \<longleftrightarrow> (\<exists>d\<in>set coll. sameFields d book)"
  by (simp only: checkIfDuplicateExists_FindOne FindOne_isl matches_five not_not)

lemma applyUpdate_set:
  "applyUpdate [(''$set'', BDoc
            [(''bookname'', BString n),
             (''bookauthor'', BString a),
             (''bookisbn'', BString i),
             (''bookpages'', BInt p),
             (''bookyear'', BInt y)])] d
   = d\<lparr>BookName := n, BookAuthor := a, BookISBN := i, BookPages := p, BookYear := y\<rparr>"
  by (simp add: applyUpdate_def)

section \<open>Conversion between the two shapes\<close>

lemma convertToBookstore_fields:
  "BookName (convertToBookstore b) = Name b"
  "BookAuthor (convertToBookstore b) = Author b"
  "BookISBN (convertToBookstore b) = ISBN b"
  "BookPages (convertToBookstore b) = Pages b"
  "BookYear (convertToBookstore b) = Year b"
  by (simp_all add: convertToBookstore_def zeroBookStore_def Let_def)

lemma convertToBookstore_ID:
  "ID (convertToBookstore b) = (if wID b \<noteq> [] then fst (ObjectIDFromHex (wID b)) else NilObjectID)"
  by (simp add: convertToBookstore_def zeroBookStore_def Let_def)





section \<open>The Duplicate Guard\<close>

text \<open>
  Claim C4. \<^verbatim>\<open>checkIfDuplicateExists\<close> returns true exactly when some stored record has
  the candidate's name, author, ISBN, page count and year, and its result is that of one
  \<^verbatim>\<open>FindOne\<close> whose filter holds these five fields.
\<close>

theorem C4_duplicate_guard:
  "(checkIfDuplicateExists coll book \<longleftrightarrow>
      (\<exists>d\<in>set coll. BookName d = BookName book \<and> BookAuthor d = BookAuthor book
         \<and> BookISBN d = BookISBN book \<and> BookPages d = BookPages book
         \<and> BookYear d = BookYear book))
   \<and> (checkIfDuplicateExists coll book \<longleftrightarrow>
        \<not> isl (FindOne coll
          [(''bookname'', BString (BookName book)),
           (''bookauthor'', BString (BookAuthor book)),
           (''bookisbn'', BString (BookISBN book)),
           (''bookpages'', BInt (BookPages book)),
           (''bookyear'', BInt (BookYear book))]))"
  using checkIfDuplicateExists_iff [of coll book] checkIfDuplicateExists_FindOne [of coll book]
  by (simp only: sameFields_def)

theorem C4_duplicate_guard_witness:
  "checkIfDuplicateExists [storedBook] (storedBook\<lparr>ID := NilObjectID\<rparr>)
   \<and> \<not> checkIfDuplicateExists [storedBook] (storedBook\<lparr>BookPages := 413\<rparr>)"
  using C4_duplicate_guard [of "[storedBook]" "storedBook\<lparr>ID := NilObjectID\<rparr>"]
    C4_duplicate_guard [of "[storedBook]" "storedBook\<lparr>BookPages := 413\<rparr>"]
  by (simp add: storedBook_def)

section \<open>What the data-access functions do to the collection\<close>

lemma getAllBooks_all: "getAllBooks coll = map wireRow coll"
  by (simp add: getAllBooks_def Find_def matches_any)

lemma updateBook_Nil: "updateBook [] b = []"
  by (simp add: updateBook_def)

lemma updateBook_Cons:
  "updateBook (d # ds) b =
     (if ID d = ID b
      then d\<lparr>BookName := BookName b, BookAuthor := BookAuthor b, BookISBN := BookISBN b,
              BookPages := BookPages b, BookYear := BookYear b\<rparr> # ds
      else d # updateBook ds b)"
  by (simp add: updateBook_def matches_id applyUpdate_set)

lemma updateBook_absent: "ID b \<notin> set (map ID coll) \<Longrightarrow> updateBook coll b = coll"
  by (induction coll) (auto simp: updateBook_Nil updateBook_Cons)

lemma updateBook_present:
  "ID b \<in> set (map ID coll) \<Longrightarrow> \<exists>d\<in>set (updateBook coll b). sameFields d b"
  by (induction coll) (auto simp: updateBook_Nil updateBook_Cons sameFields_def)

lemma updateBook_twice: "updateBook (updateBook coll b) b = updateBook coll b"
  by (induction coll) (simp_all add: updateBook_Nil updateBook_Cons)

lemma map_ID_updateBook: "map ID (updateBook coll b) = map ID coll"
  by (induction coll) (simp_all add: updateBook_Nil updateBook_Cons)

lemma deleteBook_Nil: "deleteBook [] i = []"
  by (simp add: deleteBook_def)

lemma deleteBook_Cons:
  "deleteBook (d # ds) i = (if ID d = i then ds else d # deleteBook ds i)"
  by (simp add: deleteBook_def matches_id)

lemma deleteBook_absent: "i \<notin> set (map ID coll) \<Longrightarrow> deleteBook coll i = coll"
  by (induction coll) (auto simp: deleteBook_Nil deleteBook_Cons)

lemma noZeroID_absent: "noZeroID coll \<Longrightarrow> NilObjectID \<notin> set (map ID coll)"
  by (auto simp: noZeroID_def IsZero_def list_all_iff)

lemma InsertOne_Inr:
  "InsertOne newID coll doc = Inr (coll', i) \<longleftrightarrow>
     i = (if IsZero (ID doc) then newID else ID doc) \<and> i \<notin> set (map ID coll)
     \<and> coll' = coll @ [doc\<lparr>ID := i\<rparr>]"
  by (auto simp: InsertOne_def Let_def)

lemma InsertOne_Inl:
  "InsertOne newID coll doc = Inl e \<longleftrightarrow>
     e = DuplicateKeyError \<and> (if IsZero (ID doc) then newID else ID doc) \<in> set (map ID coll)"
  by (auto simp: InsertOne_def Let_def)

lemma POST_duplicate:
  "checkIfDuplicateExists coll (convertToBookstore book) \<Longrightarrow>
   POST_api_books newID coll book = (coll, (304, JString ''Duplicate not allowed''))"
  by (simp add: POST_api_books_def)

lemma POST_inserted:
  "\<not> checkIfDuplicateExists coll (convertToBookstore book) \<Longrightarrow>
   InsertOne newID coll (convertToBookstore book) = Inr (coll', i) \<Longrightarrow>
   POST_api_books newID coll book = (coll', (200, JRows [[(''ID'', BObjectID i)]]))"
  by (simp add: POST_api_books_def saveBook_def)

lemma POST_failed:
  "\<not> checkIfDuplicateExists coll (convertToBookstore book) \<Longrightarrow>
   InsertOne newID coll (convertToBookstore book) = Inl e \<Longrightarrow>
   POST_api_books newID coll book = (coll, (200, JRows []))"
  by (simp add: POST_api_books_def saveBook_def)

lemma convert_no_ID:
  "wID book = [] \<or> snd (ObjectIDFromHex (wID book)) \<noteq> None \<Longrightarrow>
   ID (convertToBookstore book) = NilObjectID"
  by (auto simp: convertToBookstore_ID ObjectIDFromHex_error)

subsection \<open>The zero identifier is never stored\<close>

text \<open>
  Every handler keeps the collection free of the zero identifier, as long as the
  identifier the driver generates is not the zero one.
\<close>

lemma noZeroID_POST:
  assumes "noZeroID coll" "\<not> IsZero newID"
  shows "noZeroID (fst (POST_api_books newID coll book))"
proof (cases "checkIfDuplicateExists coll (convertToBookstore book)")
  case True
  with assms(1) show ?thesis by (simp add: POST_duplicate)
next
  case False
  show ?thesis
  proof (cases "InsertOne newID coll (convertToBookstore book)")
    case (Inl e)
    with False assms(1) show ?thesis by (simp add: POST_failed)
  next
    case (Inr r)
    obtain c i where r: "r = (c, i)" by (cases r)
    with Inr have "c = coll @ [(convertToBookstore book)\<lparr>ID := i\<rparr>]" "\<not> IsZero i"
      using assms(2) by (auto simp: InsertOne_Inr)
    with False Inr r assms(1) show ?thesis
      by (simp add: POST_inserted noZeroID_def)
  qed
qed

lemma noZeroID_updateBook: "noZeroID coll \<Longrightarrow> noZeroID (updateBook coll b)"
  by (induction coll) (auto simp: noZeroID_def updateBook_Nil updateBook_Cons)

lemma noZeroID_PUT: "noZeroID coll \<Longrightarrow> noZeroID (fst (PUT_api_books coll book))"
  by (simp add: PUT_api_books_def Let_def noZeroID_updateBook)

lemma noZeroID_deleteBook: "noZeroID coll \<Longrightarrow> noZeroID (deleteBook coll i)"
  by (induction coll) (auto simp: noZeroID_def deleteBook_Nil deleteBook_Cons)

lemma noZeroID_DELETE: "noZeroID coll \<Longrightarrow> noZeroID (fst (DELETE_api_books coll idParam))"
  by (simp add: DELETE_api_books_def noZeroID_deleteBook)

section \<open>Creating a record\<close>

lemma POST_answer_identifier:
  assumes post: "POST_api_books newID coll book = (coll', (200, JRows [[(''ID'', BObjectID i)]]))"
  shows "i = (if IsZero (ID (convertToBookstore book)) then newID
              else ID (convertToBookstore book))
         \<and> i \<notin> set (map ID coll)
         \<and> coll' = coll @ [(convertToBookstore book)\<lparr>ID := i\<rparr>]"
proof -
  from post have nodup: "\<not> checkIfDuplicateExists coll (convertToBookstore book)"
    by (auto simp: POST_api_books_def)
  show ?thesis
  proof (cases "InsertOne newID coll (convertToBookstore book)")
    case (Inl e)
    with nodup post show ?thesis by (simp add: POST_failed)
  next
    case (Inr r)
    obtain c j where r: "r = (c, j)" by (cases r)
    with Inr nodup post have "c = coll'" "j = i"
      by (simp_all add: POST_inserted)
    with Inr r show ?thesis
      by (auto simp: InsertOne_Inr)
  qed
qed

lemma POST_creates:
  assumes "\<not> checkIfDuplicateExists coll (convertToBookstore book)"
    and "i = (if IsZero (ID (convertToBookstore book)) then newID
              else ID (convertToBookstore book))"
    and "i \<notin> set (map ID coll)"
  shows "POST_api_books newID coll book =
      (coll @ [(convertToBookstore book)\<lparr>ID := i\<rparr>], (200, JRows [[(''ID'', BObjectID i)]]))"
proof -
  have "InsertOne newID coll (convertToBookstore book)
      = Inr (coll @ [(convertToBookstore book)\<lparr>ID := i\<rparr>], i)"
    using assms(2,3) by (simp add: InsertOne_Inr)
  with assms(1) show ?thesis by (rule POST_inserted)
qed

text \<open>
  Claim C1, as amended. The record handed to the insert carries the identifier the wire
  identifier decodes to: the zero identifier when the wire identifier is empty or does
  not decode, and the decoded identifier otherwise. A create that answers with an
  identifier answers with the generated one when the record carries the zero identifier,
  and with the identifier of the record otherwise; that identifier was not in the store
  before, and the store has grown by the record under it. The create does so whenever
  the guard finds no duplicate and that identifier is new.
\<close>

theorem C1_create_identifier:
  "ID (convertToBookstore book) =
     (if wID book = [] \<or> snd (ObjectIDFromHex (wID book)) \<noteq> None then NilObjectID
      else fst (ObjectIDFromHex (wID book)))
   \<and> (POST_api_books newID coll book = (coll', (200, JRows [[(''ID'', BObjectID i)]])) \<longrightarrow>
        i = (if IsZero (ID (convertToBookstore book)) then newID
             else ID (convertToBookstore book))
        \<and> i \<notin> set (map ID coll)
        \<and> coll' = coll @ [(convertToBookstore book)\<lparr>ID := i\<rparr>])
   \<and> (\<not> checkIfDuplicateExists coll (convertToBookstore book)
        \<and> (if IsZero (ID (convertToBookstore book)) then newID
            else ID (convertToBookstore book)) \<notin> set (map ID coll) \<longrightarrow>
        POST_api_books newID coll book =
          (coll @ [(convertToBookstore book)
                     \<lparr>ID := (if IsZero (ID (convertToBookstore book)) then newID
                              else ID (convertToBookstore book))\<rparr>],
           (200, JRows [[(''ID'', BObjectID
              (if IsZero (ID (convertToBookstore book)) then newID
               else ID (convertToBookstore book)))]])))"
proof -
  have carried: "ID (convertToBookstore book) =
     (if wID book = [] \<or> snd (ObjectIDFromHex (wID book)) \<noteq> None then NilObjectID
      else fst (ObjectIDFromHex (wID book)))"
    by (auto simp: convertToBookstore_ID ObjectIDFromHex_error)
  from carried POST_answer_identifier [of newID coll book coll' i]
    POST_creates [of coll book _ newID, OF _ refl]
  show ?thesis by blast
qed

theorem C1_create_identifier_witness:
  "ID (convertToBookstore (wireBook ''xyz'' 412)) = NilObjectID
   \<and> \<not> checkIfDuplicateExists [] (convertToBookstore (wireBook ''xyz'' 412))
   \<and> generatedID \<notin> set (map ID [])
   \<and> POST_api_books generatedID [] (wireBook ''xyz'' 412)
       = ([storedBook\<lparr>ID := generatedID\<rparr>], (200, JRows [[(''ID'', BObjectID generatedID)]]))
   \<and> POST_api_books generatedID [] (wireBook ''000000000000000000000000'' 412)
       = ([storedBook\<lparr>ID := generatedID\<rparr>], (200, JRows [[(''ID'', BObjectID generatedID)]]))
   \<and> ID (convertToBookstore (wireBook ''0102030405060708090a0b0c'' 412)) = storedID
   \<and> POST_api_books generatedID [] (wireBook ''0102030405060708090a0b0c'' 412)
       = ([storedBook], (200, JRows [[(''ID'', BObjectID storedID)]]))"
  using C1_create_identifier [of "wireBook ''xyz'' 412" generatedID "[]"
      "[storedBook\<lparr>ID := generatedID\<rparr>]" generatedID]
    C1_create_identifier [of "wireBook ''000000000000000000000000'' 412" generatedID "[]"
      "[storedBook\<lparr>ID := generatedID\<rparr>]" generatedID]
    C1_create_identifier [of "wireBook ''0102030405060708090a0b0c'' 412" generatedID "[]"
      "[storedBook]" storedID]
  by (simp add: wireBook_def ObjectIDFromHex_def fromHexChar_def checkIfDuplicateExists_iff
      convertToBookstore_def zeroBookStore_def storedBook_def Let_def IsZero_def
      NilObjectID_bytes storedID_def generatedID_def)

text \<open>
  Claim C1 as it is written fails for a wire record whose identifier decodes: the record
  handed to the insert carries the client's identifier, and the create stores and answers
  that identifier, not the generated one.
\<close>

theorem C1_counterexample:
  "ID (convertToBookstore (wireBook ''0102030405060708090a0b0c'' 412)) = storedID
   \<and> storedID \<noteq> NilObjectID
   \<and> storedID \<noteq> generatedID
   \<and> POST_api_books generatedID [] (wireBook ''0102030405060708090a0b0c'' 412)
       = ([storedBook], (200, JRows [[(''ID'', BObjectID storedID)]]))"
  by (simp add: POST_api_books_def saveBook_def InsertOne_def checkIfDuplicateExists_iff
      convertToBookstore_def zeroBookStore_def wireBook_def storedBook_def
      ObjectIDFromHex_def fromHexChar_def storedID_def generatedID_def IsZero_def NilObjectID_bytes
      Let_def)

text \<open>
  Claim C2, as amended. When a stored record has the five field values of the request,
  the handler answers 304, which is neither 200 nor an error status from 400 up, and the
  store is as before. When none has and the write succeeds, exactly one record is added
  at the end, it is the converted record under the inserted identifier, that identifier
  was not in the store before, and the answer is 200 with it; it is the generated
  identifier when the wire identifier is empty or does not decode.
\<close>

theorem C2_post_duplicate:
  "((\<exists>d\<in>set coll. sameFields d (convertToBookstore book)) \<longrightarrow>
      POST_api_books newID coll book = (coll, (304, JString ''Duplicate not allowed''))
      \<and> fst (snd (POST_api_books newID coll book)) \<noteq> 200
      \<and> fst (snd (POST_api_books newID coll book)) < 400)
   \<and> (\<not> (\<exists>d\<in>set coll. sameFields d (convertToBookstore book))
        \<and> InsertOne newID coll (convertToBookstore book) = Inr (coll', i) \<longrightarrow>
      POST_api_books newID coll book = (coll', (200, JRows [[(''ID'', BObjectID i)]]))
      \<and> coll' = coll @ [(convertToBookstore book)\<lparr>ID := i\<rparr>]
      \<and> length coll' = Suc (length coll)
      \<and> i \<notin> set (map ID coll)
      \<and> (wID book = [] \<or> snd (ObjectIDFromHex (wID book)) \<noteq> None \<longrightarrow> i = newID))"
proof -
  have dup: "POST_api_books newID coll book = (coll, (304, JString ''Duplicate not allowed''))"
    if "\<exists>d\<in>set coll. sameFields d (convertToBookstore book)"
    using that by (simp only: POST_duplicate checkIfDuplicateExists_iff)
  have ins: "POST_api_books newID coll book = (coll', (200, JRows [[(''ID'', BObjectID i)]]))
      \<and> coll' = coll @ [(convertToBookstore book)\<lparr>ID := i\<rparr>]
      \<and> length coll' = Suc (length coll)
      \<and> i \<notin> set (map ID coll)
      \<and> (wID book = [] \<or> snd (ObjectIDFromHex (wID book)) \<noteq> None \<longrightarrow> i = newID)"
    if nodup: "\<not> (\<exists>d\<in>set coll. sameFields d (convertToBookstore book))"
      and ok: "InsertOne newID coll (convertToBookstore book) = Inr (coll', i)"
  proof -
    from nodup have "\<not> checkIfDuplicateExists coll (convertToBookstore book)"
      by (simp only: checkIfDuplicateExists_iff not_False_eq_True)
    then have "POST_api_books newID coll book = (coll', (200, JRows [[(''ID'', BObjectID i)]]))"
      using ok by (rule POST_inserted)
    moreover from ok have "coll' = coll @ [(convertToBookstore book)\<lparr>ID := i\<rparr>]"
      "i \<notin> set (map ID coll)" "i = (if IsZero (ID (convertToBookstore book)) then newID
         else ID (convertToBookstore book))"
      by (auto simp: InsertOne_Inr)
    moreover have "ID (convertToBookstore book) = NilObjectID"
      if "wID book = [] \<or> snd (ObjectIDFromHex (wID book)) \<noteq> None"
      using that by (rule convert_no_ID)
    ultimately show ?thesis by (simp add: IsZero_def)
  qed
  from dup ins show ?thesis by simp
qed

theorem C2_post_duplicate_witness:
  "(\<exists>d\<in>set [storedBook]. sameFields d (convertToBookstore (wireBook [] 412)))
   \<and> POST_api_books generatedID [storedBook] (wireBook [] 412)
       = ([storedBook], (304, JString ''Duplicate not allowed''))
   \<and> \<not> (\<exists>d\<in>set [storedBook]. sameFields d (convertToBookstore (wireBook [] 413)))
   \<and> InsertOne generatedID [storedBook] (convertToBookstore (wireBook [] 413))
       = Inr ([storedBook, storedBook\<lparr>ID := generatedID, BookPages := 413\<rparr>], generatedID)
   \<and> POST_api_books generatedID [storedBook] (wireBook [] 413)
       = ([storedBook, storedBook\<lparr>ID := generatedID, BookPages := 413\<rparr>],
          (200, JRows [[(''ID'', BObjectID generatedID)]]))"
  using C2_post_duplicate [of "[storedBook]" "wireBook [] 412" generatedID
      "[storedBook]" generatedID]
    C2_post_duplicate [of "[storedBook]" "wireBook [] 413" generatedID
      "[storedBook, storedBook\<lparr>ID := generatedID, BookPages := 413\<rparr>]" generatedID]
  by (simp add: sameFields_def convertToBookstore_fields convertToBookstore_ID wireBook_def
      storedBook_def InsertOne_Inr IsZero_def storedID_def generatedID_def)

text \<open>
  Claim C2 as it is written fails where the write is refused: the request carries the
  identifier of a stored record and other field values, the guard finds no duplicate,
  the store refuses the identifier, nothing is inserted and the answer is 200 with no
  identifier.
\<close>

theorem C2_counterexample:
  "\<not> sameFields storedBook (convertToBookstore (wireBook ''0102030405060708090a0b0c'' 413))
   \<and> \<not> checkIfDuplicateExists [storedBook]
         (convertToBookstore (wireBook ''0102030405060708090a0b0c'' 413))
   \<and> POST_api_books generatedID [storedBook] (wireBook ''0102030405060708090a0b0c'' 413)
       = ([storedBook], (200, JRows []))"
  by (simp add: POST_api_books_def saveBook_def InsertOne_def checkIfDuplicateExists_iff
      sameFields_def convertToBookstore_fields convertToBookstore_ID wireBook_def storedBook_def
      ObjectIDFromHex_def fromHexChar_def storedID_def Let_def IsZero_def NilObjectID_bytes)

text \<open>
  Claim C5, as amended. When the guard has passed and the store write fails,
  \<^verbatim>\<open>saveBook\<close> returns the nil slice and the handler answers with status 200 and the
  body \<^verbatim>\<open>null\<close>; the store is as before. The status is 200 whether the write fails or
  not, and the body is \<^verbatim>\<open>null\<close> exactly when it fails.
\<close>

theorem C5_write_failure:
  assumes "\<not> checkIfDuplicateExists coll (convertToBookstore book)"
  shows "(InsertOne newID coll (convertToBookstore book) = Inl err \<longrightarrow>
            saveBook newID coll (convertToBookstore book) = (coll, [])
            \<and> POST_api_books newID coll book = (coll, (200, JRows [])))
         \<and> fst (snd (POST_api_books newID coll book)) = 200
         \<and> (snd (snd (POST_api_books newID coll book)) = JRows [] \<longleftrightarrow>
              isl (InsertOne newID coll (convertToBookstore book)))"
proof (cases "InsertOne newID coll (convertToBookstore book)")
  case (Inl e)
  with assms show ?thesis
    by (simp add: POST_failed saveBook_def)
next
  case (Inr r)
  obtain c i where "r = (c, i)" by (cases r)
  with assms Inr show ?thesis
    by (simp add: POST_inserted)
qed

theorem C5_write_failure_witness:
  "\<not> checkIfDuplicateExists [storedBook]
       (convertToBookstore (wireBook ''0102030405060708090a0b0c'' 500))
   \<and> InsertOne generatedID [storedBook]
       (convertToBookstore (wireBook ''0102030405060708090a0b0c'' 500)) = Inl DuplicateKeyError
   \<and> saveBook generatedID [storedBook]
       (convertToBookstore (wireBook ''0102030405060708090a0b0c'' 500)) = ([storedBook], [])
   \<and> POST_api_books generatedID [storedBook] (wireBook ''0102030405060708090a0b0c'' 500)
       = ([storedBook], (200, JRows []))"
  using C5_write_failure [of "[storedBook]" "wireBook ''0102030405060708090a0b0c'' 500"
      generatedID DuplicateKeyError]
  by (simp add: InsertOne_Inl checkIfDuplicateExists_iff
      sameFields_def convertToBookstore_fields convertToBookstore_ID wireBook_def storedBook_def
      ObjectIDFromHex_def fromHexChar_def storedID_def IsZero_def NilObjectID_bytes)

text \<open>
  Claim C5 as it is written fails: the write is refused and the status of the answer is
  200, the status of a success.
\<close>

theorem C5_counterexample:
  "InsertOne generatedID [storedBook]
       (convertToBookstore (wireBook ''0102030405060708090a0b0c'' 1000)) = Inl DuplicateKeyError
   \<and> fst (snd (POST_api_books generatedID [storedBook]
       (wireBook ''0102030405060708090a0b0c'' 1000))) = 200"
  by (simp add: POST_api_books_def saveBook_def InsertOne_def checkIfDuplicateExists_iff
      sameFields_def convertToBookstore_fields convertToBookstore_ID wireBook_def storedBook_def
      ObjectIDFromHex_def fromHexChar_def storedID_def Let_def IsZero_def NilObjectID_bytes)

section \<open>Updating a record\<close>

lemma PUT_twice:
  "fst (PUT_api_books (fst (PUT_api_books coll book)) book) = fst (PUT_api_books coll book)"
proof (cases "checkIfDuplicateExists coll (convertToBookstore book)")
  case True
  then show ?thesis by (simp add: PUT_api_books_def)
next
  case False
  then have first: "fst (PUT_api_books coll book) = updateBook coll (convertToBookstore book)"
    by (simp add: PUT_api_books_def)
  show ?thesis
    unfolding first
    by (simp add: PUT_api_books_def Let_def updateBook_twice)
qed

text \<open>
  Claim C9. Applying \<^verbatim>\<open>updateBook\<close> twice with the same record leaves the collection as
  applying it once does, and so does sending the same PUT request twice.
\<close>

theorem C9_update_idempotent:
  "updateBook (updateBook coll updatedBook) updatedBook = updateBook coll updatedBook
   \<and> fst (PUT_api_books (fst (PUT_api_books coll book)) book) = fst (PUT_api_books coll book)"
  by (simp only: updateBook_twice PUT_twice)

theorem C9_update_idempotent_witness:
  "updateBook (updateBook [storedBook] (storedBook\<lparr>BookPages := 413\<rparr>)) (storedBook\<lparr>BookPages := 413\<rparr>)
     = [storedBook\<lparr>BookPages := 413\<rparr>]
   \<and> fst (PUT_api_books [storedBook] (wireBook ''0102030405060708090a0b0c'' 413))
     = [storedBook\<lparr>BookPages := 413\<rparr>]
   \<and> fst (PUT_api_books (fst (PUT_api_books [storedBook] (wireBook ''0102030405060708090a0b0c'' 413)))
        (wireBook ''0102030405060708090a0b0c'' 413))
     = [storedBook\<lparr>BookPages := 413\<rparr>]"
  using C9_update_idempotent [of "[storedBook]" "storedBook\<lparr>BookPages := 413\<rparr>"
      "wireBook ''0102030405060708090a0b0c'' 413"]
  by (simp add: updateBook_Cons PUT_api_books_def checkIfDuplicateExists_iff sameFields_def
      convertToBookstore_fields convertToBookstore_ID wireBook_def storedBook_def
      ObjectIDFromHex_def fromHexChar_def storedID_def)

text \<open>
  Claim C10, as amended. A PUT whose wire identifier is empty or does not decode goes on
  with the zero identifier and runs the guard on the new field values. The store is as
  before in either case. When the guard finds no duplicate, the update matches no record
  and the answer is 200 with the confirmation; when it finds one, the answer is 201 with
  the duplicate message.
\<close>

theorem C10_put_without_identifier:
  assumes "wID book = [] \<or> snd (ObjectIDFromHex (wID book)) \<noteq> None"
    and "noZeroID coll"
  shows "ID (convertToBookstore book) = NilObjectID
         \<and> fst (PUT_api_books coll book) = coll
         \<and> (\<not> checkIfDuplicateExists coll (convertToBookstore book) \<longrightarrow>
              updateBook coll (convertToBookstore book) = coll
              \<and> snd (PUT_api_books coll book) = (200, JString ''Updated the book''))
         \<and> (checkIfDuplicateExists coll (convertToBookstore book) \<longrightarrow>
              snd (PUT_api_books coll book) = (201, JString ''Duplicate not allowed''))"
proof -
  have zero: "ID (convertToBookstore book) = NilObjectID"
    using assms(1) by (rule convert_no_ID)
  with assms(2) have "ID (convertToBookstore book) \<notin> set (map ID coll)"
    by (simp only: noZeroID_absent not_False_eq_True)
  then have "updateBook coll (convertToBookstore book) = coll"
    by (rule updateBook_absent)
  with zero show ?thesis
    by (simp add: PUT_api_books_def Let_def)
qed

theorem C10_put_without_identifier_witness:
  "(wID (wireBook [] 413) = [] \<or> snd (ObjectIDFromHex (wID (wireBook [] 413))) \<noteq> None)
   \<and> (wID (wireBook ''xyz'' 412) = [] \<or> snd (ObjectIDFromHex (wID (wireBook ''xyz'' 412))) \<noteq> None)
   \<and> noZeroID [storedBook]
   \<and> \<not> checkIfDuplicateExists [storedBook] (convertToBookstore (wireBook [] 413))
   \<and> PUT_api_books [storedBook] (wireBook [] 413)
        = ([storedBook], (200, JString ''Updated the book''))
   \<and> checkIfDuplicateExists [storedBook] (convertToBookstore (wireBook ''xyz'' 412))
   \<and> PUT_api_books [storedBook] (wireBook ''xyz'' 412)
        = ([storedBook], (201, JString ''Duplicate not allowed''))"
  using C10_put_without_identifier [of "wireBook [] 413" "[storedBook]"]
    C10_put_without_identifier [of "wireBook ''xyz'' 412" "[storedBook]"]
  by (simp add: wireBook_def noZeroID_def IsZero_def NilObjectID_bytes storedBook_def
      storedID_def ObjectIDFromHex_def checkIfDuplicateExists_iff sameFields_def
      convertToBookstore_fields prod_eq_iff)

text \<open>
  Claim C10 as it is written fails where the new field values are those of a stored
  record: the answer is 201 with the duplicate message, not 200 with the confirmation.
\<close>

theorem C10_counterexample:
  "wID (wireBook [] 412) = []
   \<and> PUT_api_books [storedBook] (wireBook [] 412)
        = ([storedBook], (201, JString ''Duplicate not allowed''))"
  by (simp add: PUT_api_books_def wireBook_def storedBook_def checkIfDuplicateExists_iff
      sameFields_def convertToBookstore_fields)

section \<open>Deleting a record\<close>

text \<open>
  Claim C8. A path identifier that does not decode gives the zero identifier, the delete
  then matches no record and the store is as before; deleting an identifier that is not
  stored leaves the store as before; and the answer is 200 with the same message in
  every case, for any store and any path identifier.
\<close>

theorem C8_delete:
  assumes "noZeroID coll"
  shows "(snd (ObjectIDFromHex idParam) \<noteq> None \<longrightarrow>
            fst (ObjectIDFromHex idParam) = NilObjectID
            \<and> fst (DELETE_api_books coll idParam) = coll)
         \<and> (fst (ObjectIDFromHex idParam) \<notin> set (map ID coll) \<longrightarrow>
              fst (DELETE_api_books coll idParam) = coll)
         \<and> snd (DELETE_api_books coll idParam) = (200, JString ''Succesfully deleted entry'')
         \<and> snd (DELETE_api_books coll idParam) = snd (DELETE_api_books coll' idParam')"
proof -
  have absent: "fst (DELETE_api_books coll idParam) = coll"
    if "fst (ObjectIDFromHex idParam) \<notin> set (map ID coll)"
    using that by (simp add: DELETE_api_books_def deleteBook_absent)
  have undecodable: "fst (ObjectIDFromHex idParam) = NilObjectID
      \<and> fst (DELETE_api_books coll idParam) = coll"
    if "snd (ObjectIDFromHex idParam) \<noteq> None"
    using ObjectIDFromHex_error [OF that] noZeroID_absent [OF assms] absent by simp
  have "snd (DELETE_api_books c i) = (200, JString ''Succesfully deleted entry'')" for c i
    by (simp add: DELETE_api_books_def)
  with absent undecodable show ?thesis by simp
qed

theorem C8_delete_witness:
  "noZeroID [storedBook]
   \<and> snd (ObjectIDFromHex ''xyz'') \<noteq> None
   \<and> DELETE_api_books [storedBook] ''xyz'' = ([storedBook], (200, JString ''Succesfully deleted entry''))
   \<and> DELETE_api_books [storedBook] ''0102030405060708090a0b0c''
        = ([], (200, JString ''Succesfully deleted entry''))"
  using C8_delete [of "[storedBook]" "''xyz''" "[]" "[]"]
  by (simp add: noZeroID_def IsZero_def NilObjectID_bytes storedBook_def storedID_def
      ObjectIDFromHex_def DELETE_api_books_def deleteBook_Cons fromHexChar_def prod_eq_iff)

section \<open>Bootstrapping the collection\<close>

lemma prepareDatabase_unreachable:
  "\<not> reachable db \<Longrightarrow>
   prepareDatabase db collecName = (db, Returned None (Some ServerSelectionError))"
  by (simp add: prepareDatabase_def ListCollectionNames_def)

lemma prepareDatabase_present:
  "reachable db \<Longrightarrow> collecName \<in> set (collections db) \<Longrightarrow>
   prepareDatabase db collecName = (db, Returned (Some collecName) None)"
  by (simp add: prepareDatabase_def ListCollectionNames_def)

lemma prepareDatabase_missing:
  "reachable db \<Longrightarrow> collecName \<notin> set (collections db) \<Longrightarrow> validCollectionName collecName \<Longrightarrow>
   prepareDatabase db collecName =
     (db\<lparr>collections := collections db @ [collecName],
         commands := commands db @ [(''create'', collecName)]\<rparr>,
      Returned (Some collecName) None)"
  by (simp add: prepareDatabase_def ListCollectionNames_def RunCommand_def)

lemma prepareDatabase_refused:
  "reachable db \<Longrightarrow> collecName \<notin> set (collections db) \<Longrightarrow> \<not> validCollectionName collecName \<Longrightarrow>
   prepareDatabase db collecName =
     (db\<lparr>commands := commands db @ [(''create'', collecName)]\<rparr>, Fatal InvalidNamespace)"
  by (simp add: prepareDatabase_def ListCollectionNames_def RunCommand_def)

lemma prepareDatabase_commands:
  "commands (fst (prepareDatabase db collecName)) =
     (if reachable db \<and> collecName \<notin> set (collections db)
      then commands db @ [(''create'', collecName)] else commands db)"
proof (cases "reachable db \<and> collecName \<notin> set (collections db)")
  case True
  then show ?thesis
    by (cases "validCollectionName collecName")
      (simp_all add: prepareDatabase_missing prepareDatabase_refused)
next
  case False
  then show ?thesis
    by (cases "reachable db")
      (simp_all add: prepareDatabase_unreachable prepareDatabase_present)
qed

lemma prepareDatabase_twice_collections:
  "collections (fst (prepareDatabase (fst (prepareDatabase db collecName)) collecName)) =
     collections (fst (prepareDatabase db collecName))"
proof (cases "reachable db")
  case False
  then show ?thesis by (simp add: prepareDatabase_unreachable)
next
  case up: True
  show ?thesis
  proof (cases "collecName \<in> set (collections db)")
    case True
    with up show ?thesis by (simp add: prepareDatabase_present)
  next
    case missing: False
    show ?thesis
    proof (cases "validCollectionName collecName")
      case True
      with up missing show ?thesis
        by (simp add: prepareDatabase_missing prepareDatabase_present)
    next
      case False
      with up missing show ?thesis
        by (simp add: prepareDatabase_refused)
    qed
  qed
qed

lemma prepareDatabase_twice:
  assumes "snd (prepareDatabase db collecName) = Returned (Some collecName) None"
  shows "prepareDatabase (fst (prepareDatabase db collecName)) collecName =
          (fst (prepareDatabase db collecName), Returned (Some collecName) None)"
proof -
  from assms have up: "reachable db"
    by (rule contrapos_pp) (simp add: prepareDatabase_unreachable)
  show ?thesis
  proof (cases "collecName \<in> set (collections db)")
    case True
    with up show ?thesis by (simp add: prepareDatabase_present)
  next
    case missing: False
    from assms up missing have "validCollectionName collecName"
      by (rule_tac ccontr) (simp add: prepareDatabase_refused)
    with up missing show ?thesis
      by (simp add: prepareDatabase_missing prepareDatabase_present)
  qed
qed

lemma prepareData_nil: "prepareData newID None docs = Panicked"
  by (simp add: prepareData_def startData_def)

lemma main_startup_example:
  "main_startup seedID (exampleDatabase True []) [] =
     Serving \<lparr>reachable = True, collections = [''information''],
               commands = [(''create'', ''information'')]\<rparr>
       [(startData ! 0)\<lparr>ID := seedID 0\<rparr>, (startData ! 1)\<lparr>ID := seedID 1\<rparr>,
        (startData ! 2)\<lparr>ID := seedID 2\<rparr>]"
  by (simp add: main_startup_def prepareDatabase_def ListCollectionNames_def RunCommand_def
      exampleDatabase_def validCollectionName_def prepareData_def startData_def Find_def
      matches_def marshal_def document_def InsertOne_def IsZero_def NilObjectID_bytes seedID_def
      Let_def)

lemma main_startup_unreachable: "\<not> reachable db \<Longrightarrow> main_startup newID db docs = Panic"
  by (simp add: main_startup_def prepareDatabase_unreachable prepareData_nil)

text \<open>
  Claim C6. When listing the collections fails, \<^verbatim>\<open>prepareDatabase\<close> returns the error
  with no handle and sends no command, and the start of the service ends in a panic
  before the server is started, whatever the collection holds. When the name is listed,
  nothing is sent and the database is as before. When it is missing, one \<^verbatim>\<open>create\<close> is
  sent: the collection is added when the server accepts the name, and the process ends in
  \<^verbatim>\<open>log.Fatal\<close> when it refuses it. A \<^verbatim>\<open>create\<close> is sent in no other case. Running the
  function again on its result leaves the collections as they are, and after a run that
  returned the handle the second run returns it too and sends nothing.
\<close>

theorem C6_bootstrap:
  "(\<not> reachable db \<longrightarrow>
      prepareDatabase db collecName = (db, Returned None (Some ServerSelectionError))
      \<and> main_startup newID db docs = Panic)
   \<and> (reachable db \<and> collecName \<in> set (collections db) \<longrightarrow>
        prepareDatabase db collecName = (db, Returned (Some collecName) None))
   \<and> (reachable db \<and> collecName \<notin> set (collections db) \<and> validCollectionName collecName \<longrightarrow>
        prepareDatabase db collecName =
          (db\<lparr>collections := collections db @ [collecName],
              commands := commands db @ [(''create'', collecName)]\<rparr>,
           Returned (Some collecName) None))
   \<and> (reachable db \<and> collecName \<notin> set (collections db) \<and> \<not> validCollectionName collecName \<longrightarrow>
        prepareDatabase db collecName =
          (db\<lparr>commands := commands db @ [(''create'', collecName)]\<rparr>, Fatal InvalidNamespace))
   \<and> commands (fst (prepareDatabase db collecName)) =
        (if reachable db \<and> collecName \<notin> set (collections db)
         then commands db @ [(''create'', collecName)] else commands db)
   \<and> collections (fst (prepareDatabase (fst (prepareDatabase db collecName)) collecName)) =
        collections (fst (prepareDatabase db collecName))
   \<and> (snd (prepareDatabase db collecName) = Returned (Some collecName) None \<longrightarrow>
        prepareDatabase (fst (prepareDatabase db collecName)) collecName =
          (fst (prepareDatabase db collecName), Returned (Some collecName) None))"
  using prepareDatabase_unreachable [of db collecName]
    main_startup_unreachable [of db newID docs]
    prepareDatabase_present [of db collecName]
    prepareDatabase_missing [of db collecName]
    prepareDatabase_refused [of db collecName]
    prepareDatabase_commands [of db collecName]
    prepareDatabase_twice_collections [of db collecName]
    prepareDatabase_twice [of db collecName]
  by blast

theorem C6_bootstrap_witness:
  "\<not> reachable (exampleDatabase False [])
   \<and> main_startup seedID (exampleDatabase False []) [storedBook] = Panic
   \<and> reachable (exampleDatabase True [''information''])
   \<and> ''information'' \<in> set (collections (exampleDatabase True [''information'']))
   \<and> prepareDatabase (exampleDatabase True [''information'']) ''information''
        = (exampleDatabase True [''information''], Returned (Some ''information'') None)
   \<and> reachable (exampleDatabase True [''other''])
   \<and> ''information'' \<notin> set (collections (exampleDatabase True [''other'']))
   \<and> validCollectionName ''information''
   \<and> prepareDatabase (exampleDatabase True [''other'']) ''information''
        = (\<lparr>reachable = True, collections = [''other'', ''information''],
            commands = [(''create'', ''information'')]\<rparr>, Returned (Some ''information'') None)
   \<and> prepareDatabase (fst (prepareDatabase (exampleDatabase True [''other'']) ''information''))
          ''information''
        = (\<lparr>reachable = True, collections = [''other'', ''information''],
            commands = [(''create'', ''information'')]\<rparr>, Returned (Some ''information'') None)
   \<and> [] \<notin> set (collections (exampleDatabase True [''other'']))
   \<and> \<not> validCollectionName []
   \<and> prepareDatabase (exampleDatabase True [''other'']) []
        = (\<lparr>reachable = True, collections = [''other''],
            commands = [(''create'', [])]\<rparr>, Fatal InvalidNamespace)"
  using C6_bootstrap [of "exampleDatabase False []" "''information''" seedID "[storedBook]"]
    C6_bootstrap [of "exampleDatabase True [''information'']" "''information''" seedID "[]"]
    C6_bootstrap [of "exampleDatabase True [''other'']" "''information''" seedID "[]"]
    C6_bootstrap [of "exampleDatabase True [''other'']" "[]" seedID "[]"]
  by (simp add: exampleDatabase_def validCollectionName_def prepareDatabase_present)

section \<open>Routing\<close>

lemma location_api_other:
  "request_method \<notin> {''GET'', ''POST'', ''PUT'', ''DELETE''} \<Longrightarrow> location_api request_method = None"
  by (simp add: location_api_def)

text \<open>
  Claim C3. A request whose URI has the prefix \<^verbatim>\<open>/api\<close> is passed to the upstream of
  its method: GET to \<open>get\<close>, POST to \<open>post\<close>, PUT to \<open>put\<close>, DELETE to \<open>delete\<close>. A request
  whose URI starts with a slash, as every request path does, and has not that prefix is
  passed to \<open>backend\<close> whatever its method.
\<close>

theorem C3_router:
  "(prefix ''/api'' uri \<longrightarrow>
      server ''GET'' uri = Some get \<and> server ''POST'' uri = Some post
      \<and> server ''PUT'' uri = Some put \<and> server ''DELETE'' uri = Some delete)
   \<and> (prefix ''/'' uri' \<and> \<not> prefix ''/api'' uri' \<longrightarrow> server request_method uri' = Some backend)"
  by (simp add: server_def location_api_def)

theorem C3_router_witness:
  "prefix ''/api'' ''/api/books''
   \<and> server ''GET'' ''/api/books'' = Some get \<and> server ''POST'' ''/api/books'' = Some post
   \<and> server ''PUT'' ''/api/books'' = Some put \<and> server ''DELETE'' ''/api/books/0102'' = Some delete
   \<and> prefix ''/'' ''/books'' \<and> \<not> prefix ''/api'' ''/books''
   \<and> server ''POST'' ''/books'' = Some backend \<and> server ''GET'' ''/'' = Some backend"
  using C3_router [of "''/api/books''" "''/books''" "''POST''"]
    C3_router [of "''/api/books/0102''" "''/''" "''GET''"]
  by simp

end
